theory Spec2Isabelle
  imports Main "HOL-Library.Word"
begin

section \<open>The datastore connector: data model\<close>

text \<open>
  The repository is a Go package \<^verbatim>\<open>connector\<close> with two files.
  \<^verbatim>\<open>datastoreAtomicConnector.go\<close> holds the transactional counter service
  (\<^verbatim>\<open>Count\<close>, \<^verbatim>\<open>IncrementCounter\<close>, \<^verbatim>\<open>DecrementCounter\<close>) and its factory;
  \<^verbatim>\<open>datasoreConnector.go\<close> holds the basic entity service and the factory guarded
  by \<^verbatim>\<open>sync.Once\<close>. The second half of \<^verbatim>\<open>datastoreAtomicConnector.go\<close> is a later
  revision of the basic entity service that addresses entities by identifier.

  Go's \<^verbatim>\<open>int\<close> is a signed machine integer whose arithmetic wraps around on overflow.
  It is modelled at the width it has on the 64-bit platforms: a \<open>64 word\<close>, read as two's
  complement by \<open>sint\<close>. The comparison \<^verbatim>\<open>x < 0\<close> of the source is \<open>sint x < 0\<close>.
\<close>

type_synonym go_int = "64 word"

text \<open>
  A Go \<^verbatim>\<open>error\<close> value: \<^verbatim>\<open>nil\<close> is \<open>None\<close>. The source tells
  \<^verbatim>\<open>datastore.ErrNoSuchEntity\<close> apart from every other error.
\<close>

datatype error = ErrNoSuchEntity | ErrOther string

text \<open>\<^verbatim>\<open>datastore.NameKey(kind, name, nil)\<close>: a key of a kind with a string name and no parent.\<close>

record Key =
  Kind :: string
  Name :: string

definition NameKey :: "string \<Rightarrow> string \<Rightarrow> Key" where
  "NameKey kind name = \<lparr>Kind = kind, Name = name\<rparr>"

record BasicCounter =
  Amount :: go_int

subsection \<open>The transactional key-value store\<close>

text \<open>
  The store is the package \<^verbatim>\<open>cloud.google.com/go/datastore\<close>, a collaborator outside
  the repository. Its state is the stored entities; each of its calls may fail for reasons
  the connector does not control (network, contention, an invalid key), which the fields
  \<open>begin_fault\<close> \<dots> \<open>delete_fault\<close> stand for: \<open>None\<close> lets the call succeed,
  \<open>Some e\<close> makes it return the error \<open>e\<close>.
\<close>

record 'e datastore =
  entities :: "Key \<rightharpoonup> 'e"
  begin_fault :: "error option"
  get_fault :: "error option"
  put_fault :: "error option"
  commit_fault :: "error option"
  delete_fault :: "error option"

text \<open>A transaction handle holds the writes enqueued so far, in order.\<close>

record 'e Transaction =
  mutations :: "(Key \<times> 'e) list"

text \<open>
  \<^verbatim>\<open>Client.NewTransaction\<close> returns a handle and \<^verbatim>\<open>nil\<close>, or a \<^verbatim>\<open>nil\<close>
  handle and the error.
\<close>

definition Client_NewTransaction :: "'e datastore \<Rightarrow> 'e Transaction option \<times> error option" where
  "Client_NewTransaction s =
     (case begin_fault s of
        Some e \<Rightarrow> (None, Some e)
      | None \<Rightarrow> (Some \<lparr>mutations = []\<rparr>, None))"

text \<open>
  \<^verbatim>\<open>Transaction.Get(key, dst)\<close>: on success the entity is loaded into \<open>dst\<close>; a
  missing entity gives \<^verbatim>\<open>ErrNoSuchEntity\<close>; on an error \<open>dst\<close> is left as it was.
\<close>

definition Transaction_Get ::
  "'e Transaction \<Rightarrow> 'e datastore \<Rightarrow> Key \<Rightarrow> 'e \<Rightarrow> error option \<times> 'e" where
  "Transaction_Get t s key dst =
     (case get_fault s of
        Some e \<Rightarrow> (Some e, dst)
      | None \<Rightarrow>
          (case entities s key of
             None \<Rightarrow> (Some ErrNoSuchEntity, dst)
           | Some v \<Rightarrow> (None, v)))"

text \<open>\<^verbatim>\<open>Transaction.Put(key, src)\<close> enqueues a write; a failing call enqueues nothing.\<close>

definition Transaction_Put ::
  "'e Transaction \<Rightarrow> 'e datastore \<Rightarrow> Key \<Rightarrow> 'e \<Rightarrow> 'e Transaction \<times> error option" where
  "Transaction_Put t s key src =
     (case put_fault s of
        Some e \<Rightarrow> (t, Some e)
      | None \<Rightarrow> (t\<lparr>mutations := mutations t @ [(key, src)]\<rparr>, None))"

text \<open>
  \<^verbatim>\<open>Transaction.Commit()\<close> applies the enqueued writes atomically, or fails and
  leaves the store as it was.
\<close>

definition Transaction_Commit ::
  "'e Transaction \<Rightarrow> 'e datastore \<Rightarrow> 'e datastore \<times> error option" where
  "Transaction_Commit t s =
     (case commit_fault s of
        Some e \<Rightarrow> (s, Some e)
      | None \<Rightarrow>
          (s\<lparr>entities := fold (\<lambda>(k, v) m. m(k \<mapsto> v)) (mutations t) (entities s)\<rparr>, None))"

text \<open>\<^verbatim>\<open>Client.Delete(ctx, key)\<close> outside a transaction.\<close>

definition Client_Delete :: "'e datastore \<Rightarrow> Key \<Rightarrow> 'e datastore \<times> error option" where
  "Client_Delete s key =
     (case delete_fault s of
        Some e \<Rightarrow> (s, Some e)
      | None \<Rightarrow> (s\<lparr>entities := (entities s)(key := None)\<rparr>, None))"

section \<open>The atomic counter service\<close>

text \<open>
  A \<^verbatim>\<open>*datastore.Client\<close> is the index of the client among those the process has
  constructed (see the factories below). The struct \<^verbatim>\<open>datastoreConnector\<close> of
  \<^verbatim>\<open>datasoreConnector.go\<close> has the fields \<^verbatim>\<open>client\<close> and \<^verbatim>\<open>ctx\<close>; the structs
  \<^verbatim>\<open>datastoreAtomicConnector\<close> and (in its later revision) \<^verbatim>\<open>datastoreConnector\<close>
  of \<^verbatim>\<open>datastoreAtomicConnector.go\<close> have these and \<^verbatim>\<open>CollectionName\<close>. The field
  \<^verbatim>\<open>ctx\<close> is always \<^verbatim>\<open>context.Background()\<close> and carries nothing. A factory that
  returns has set \<^verbatim>\<open>client\<close>, so the field is never \<^verbatim>\<open>nil\<close> in a connector a caller
  holds.
\<close>

type_synonym client_ptr = nat

record datastoreConnector =
  client :: client_ptr

record datastoreAtomicConnector = datastoreConnector +
  CollectionName :: string

text \<open>
  The three methods call \<^verbatim>\<open>t.Get\<close> on the handle \<^verbatim>\<open>NewTransaction\<close> returned without
  looking at its error. \<^verbatim>\<open>Transaction.Get\<close> reads the fields of its receiver, so through
  a \<^verbatim>\<open>nil\<close> handle the Go run time panics and the calling method does not return.
\<close>

datatype panic = NilPointerDereference

text \<open>
  \<^verbatim>\<open>IncrementCounter\<close>, line by line. The source has a single variable \<^verbatim>\<open>err\<close>,
  assigned by \<^verbatim>\<open>NewTransaction\<close>, \<^verbatim>\<open>Get\<close>, \<^verbatim>\<open>Put\<close> and \<^verbatim>\<open>Commit\<close> in turn; each
  \<open>err\<close> bound below shadows the one before it, as the assignment overwrites it.
  \<^verbatim>\<open>var counter BasicCounter\<close> is the zero value.
\<close>

definition IncrementCounter ::
  "datastoreAtomicConnector \<Rightarrow> string \<Rightarrow> go_int \<Rightarrow> BasicCounter datastore
     \<Rightarrow> panic + (bool \<times> BasicCounter datastore)" where
  "IncrementCounter d entityID incrementAmount s =
     (let (t, err) = Client_NewTransaction s;
          inboundKey = NameKey (CollectionName d) entityID;
          counter = \<lparr>Amount = 0\<rparr>
      in case t of
           None \<Rightarrow> Inl NilPointerDereference
         | Some t \<Rightarrow>
             (let (err, counter) = Transaction_Get t s inboundKey counter
              in if err = None \<or> err = Some ErrNoSuchEntity then
                   (let counter = counter\<lparr>Amount := Amount counter + incrementAmount\<rparr>;
                        (t, err) = Transaction_Put t s inboundKey counter;
                        (s, err) = Transaction_Commit t s
                    in Inr (err = None, s))
                 else Inr (err = None, s)))"

definition DecrementCounter ::
  "datastoreAtomicConnector \<Rightarrow> string \<Rightarrow> go_int \<Rightarrow> BasicCounter datastore
     \<Rightarrow> panic + (bool \<times> BasicCounter datastore)" where
  "DecrementCounter d entityID decrementAmount s =
     (let (t, err) = Client_NewTransaction s;
          inboundKey = NameKey (CollectionName d) entityID;
          counter = \<lparr>Amount = 0\<rparr>
      in case t of
           None \<Rightarrow> Inl NilPointerDereference
         | Some t \<Rightarrow>
             (let (err, counter) = Transaction_Get t s inboundKey counter
              in if err = None \<or> err = Some ErrNoSuchEntity then
                   (let counter = counter\<lparr>Amount := Amount counter - decrementAmount\<rparr>;
                        counter = (if sint (Amount counter) < 0
                                   then counter\<lparr>Amount := 0\<rparr> else counter);
                        (t, err) = Transaction_Put t s inboundKey counter;
                        (s, err) = Transaction_Commit t s
                    in Inr (err = None, s))
                 else Inr (err = None, s)))"

text \<open>
  \<^verbatim>\<open>Count\<close>: the error of \<^verbatim>\<open>Get\<close> is overwritten by the one of \<^verbatim>\<open>Commit\<close>; the
  named result \<^verbatim>\<open>amount\<close> starts at zero.
\<close>

definition Count ::
  "datastoreAtomicConnector \<Rightarrow> string \<Rightarrow> BasicCounter datastore
     \<Rightarrow> panic + (go_int \<times> BasicCounter datastore)" where
  "Count d entityID s =
     (let (t, err) = Client_NewTransaction s;
          inboundKey = NameKey (CollectionName d) entityID;
          counter = \<lparr>Amount = 0\<rparr>
      in case t of
           None \<Rightarrow> Inl NilPointerDereference
         | Some t \<Rightarrow>
             (let (err, counter) = Transaction_Get t s inboundKey counter;
                  (s, err) = Transaction_Commit t s;
                  amount = 0;
                  amount = (if err \<noteq> None then 0 else amount);
                  amount = (if err = None then Amount counter else amount)
              in Inr (amount, s)))"

section \<open>The basic entity service\<close>

text \<open>
  \<^verbatim>\<open>Delete\<close> of \<^verbatim>\<open>datasoreConnector.go\<close> takes the key; the named result
  \<^verbatim>\<open>deleted\<close> starts \<^verbatim>\<open>false\<close> and is set when the store's call returns an error.
\<close>

definition Delete :: "datastoreConnector \<Rightarrow> Key \<Rightarrow> 'e datastore \<Rightarrow> bool \<times> 'e datastore" where
  "Delete d key s =
     (let deleted = False;
          (s, err) = Client_Delete s key;
          deleted = (if err \<noteq> None then True else deleted)
      in (deleted, s))"

text \<open>
  \<^verbatim>\<open>Delete\<close> of the later revision (second half of \<^verbatim>\<open>datastoreAtomicConnector.go\<close>)
  takes the entity identifier and builds the key from the connector's collection.
\<close>

definition Delete_entityID ::
  "datastoreAtomicConnector \<Rightarrow> string \<Rightarrow> 'e datastore \<Rightarrow> bool \<times> 'e datastore" where
  "Delete_entityID d entityID s =
     (let deleted = False;
          inboundKey = NameKey (CollectionName d) entityID;
          (s, err) = Client_Delete s inboundKey;
          deleted = (if err \<noteq> None then True else deleted)
      in (deleted, s))"

section \<open>The client factory\<close>

text \<open>
  \<^verbatim>\<open>type datatoreClientType int\<close> with \<^verbatim>\<open>SIMPLE = 1 + iota\<close>: the three constants
  are the integers 1, 2 and 3, and a value of the type is any integer. Both files declare
  the type, the constants and \<^verbatim>\<open>getClientType\<close> with the same text.
\<close>

type_synonym datatoreClientType = int

definition SIMPLE :: datatoreClientType where
  "SIMPLE = 1"

definition EMULATOR :: datatoreClientType where
  "EMULATOR = 2"

definition KEYFILE :: datatoreClientType where
  "KEYFILE = 3"

definition getClientType :: "bool \<Rightarrow> string \<Rightarrow> datatoreClientType" where
  "getClientType emulatorEnable gcloudCredentialsPath =
     (if emulatorEnable then EMULATOR
      else if gcloudCredentialsPath \<noteq> [] then KEYFILE
      else SIMPLE)"

subsection \<open>The process around the factories\<close>

text \<open>
  What a store client was constructed from: the project, the emulator address
  \<^verbatim>\<open>datastore.NewClient\<close> found in the environment variable
  \<^verbatim>\<open>DATASTORE_EMULATOR_HOST\<close> at that moment, and the JSON key behind the token source
  passed with \<^verbatim>\<open>option.WithTokenSource\<close>, if any.
\<close>

record Client =
  project :: string
  emulator_host :: "string option"
  token_source :: "string option"

text \<open>
  The state of the process a factory runs in: its environment variables; for each
  directory, the contents of the file \<^verbatim>\<open>path.Join(directory, "keyfile.json")\<close> when
  \<^verbatim>\<open>ioutil.ReadFile\<close> can read it; the error \<^verbatim>\<open>google.JWTConfigFromJSON\<close> gives for
  a key, if any; the error \<^verbatim>\<open>datastore.NewClient\<close> fails with, if any; the clients
  constructed so far, in order; and the two package variables of
  \<^verbatim>\<open>datasoreConnector.go\<close>, \<^verbatim>\<open>once\<close> (has \<^verbatim>\<open>once.Do\<close> run its function?) and
  \<^verbatim>\<open>Instance\<close> (\<^verbatim>\<open>nil\<close> is \<open>None\<close>).
\<close>

record process =
  environ :: "string \<rightharpoonup> string"
  keyfiles :: "string \<rightharpoonup> string"
  jwt_fault :: "string \<Rightarrow> error option"
  newClient_fault :: "error option"
  clients :: "Client list"
  once_done :: bool
  Instance :: "datastoreConnector option"

text \<open>\<^verbatim>\<open>log.Fatal\<close> prints its argument and ends the process: the factory does not return.\<close>

datatype log_arg = ErrArg error | StrArg string

datatype fatal = Fatal log_arg

definition Setenv :: "process \<Rightarrow> string \<Rightarrow> string \<Rightarrow> process" where
  "Setenv p name v = p\<lparr>environ := (environ p)(name \<mapsto> v)\<rparr>"

definition NewClient :: "process \<Rightarrow> string \<Rightarrow> string option \<Rightarrow> error + (client_ptr \<times> process)" where
  "NewClient p projectID tokenSource =
     (case newClient_fault p of
        Some e \<Rightarrow> Inl e
      | None \<Rightarrow>
          Inr (length (clients p),
               p\<lparr>clients := clients p @
                    [\<lparr>project = projectID,
                      emulator_host = environ p ''DATASTORE_EMULATOR_HOST'',
                      token_source = tokenSource\<rparr>]\<rparr>))"

definition ReadFile_keyfile :: "process \<Rightarrow> string \<Rightarrow> error + string" where
  "ReadFile_keyfile p dir =
     (case keyfiles p dir of
        None \<Rightarrow> Inl (ErrOther ''open keyfile.json: no such file or directory'')
      | Some jsonKey \<Rightarrow> Inr jsonKey)"

definition JWTConfigFromJSON :: "process \<Rightarrow> string \<Rightarrow> error + string" where
  "JWTConfigFromJSON p jsonKey =
     (case jwt_fault p jsonKey of
        Some e \<Rightarrow> Inl e
      | None \<Rightarrow> Inr jsonKey)"

text \<open>
  \<^verbatim>\<open>New\<close> of \<^verbatim>\<open>datasoreConnector.go\<close>. The function passed to \<^verbatim>\<open>once.Do\<close> runs
  on the first call only; it assigns \<^verbatim>\<open>Instance\<close>, and \<^verbatim>\<open>New\<close> returns
  \<^verbatim>\<open>Instance\<close> on every call. The cases of the \<^verbatim>\<open>switch\<close> are tried in the order
  of the source, the \<^verbatim>\<open>default\<close> case last. In the \<^verbatim>\<open>EMULATOR\<close> case the client is
  constructed before the environment variable is set.
\<close>

definition New ::
  "bool \<Rightarrow> string \<Rightarrow> string \<Rightarrow> string \<Rightarrow> process
     \<Rightarrow> fatal + (datastoreConnector option \<times> process)" where
  "New emulatorEnable datastoreEmulatorAddr gcloudCredentialsPath projectID p =
     (if once_done p then Inr (Instance p, p)
      else
        (let clientType = getClientType emulatorEnable gcloudCredentialsPath;
             built =
               (if clientType = EMULATOR then
                  (case NewClient p projectID None of
                     Inl err \<Rightarrow> Inl (Fatal (ErrArg err))
                   | Inr (c, p) \<Rightarrow>
                       Inr (c, Setenv p ''DATASTORE_EMULATOR_HOST'' datastoreEmulatorAddr))
                else if clientType = SIMPLE then
                  (case NewClient p projectID None of
                     Inl err \<Rightarrow> Inl (Fatal (ErrArg err))
                   | Inr (c, p) \<Rightarrow> Inr (c, p))
                else if clientType = KEYFILE then
                  (case ReadFile_keyfile p gcloudCredentialsPath of
                     Inl err \<Rightarrow> Inl (Fatal (ErrArg err))
                   | Inr jsonKey \<Rightarrow>
                       (case JWTConfigFromJSON p jsonKey of
                          Inl err \<Rightarrow> Inl (Fatal (ErrArg err))
                        | Inr conf \<Rightarrow>
                            (case NewClient p projectID (Some conf) of
                               Inl err \<Rightarrow> Inl (Fatal (ErrArg err))
                             | Inr (c, p) \<Rightarrow> Inr (c, p))))
                else Inl (Fatal (StrArg ''Unknown Datastore client'')))
         in case built of
              Inl f \<Rightarrow> Inl f
            | Inr (c, p) \<Rightarrow>
                (let p = p\<lparr>Instance := Some \<lparr>client = c\<rparr>, once_done := True\<rparr>
                 in Inr (Instance p, p))))"

text \<open>
  \<^verbatim>\<open>NewAtomicConnector\<close>: no \<^verbatim>\<open>once\<close> and no package variable; \<^verbatim>\<open>Instance\<close> is
  a local variable, a new connector on every call. In the \<^verbatim>\<open>EMULATOR\<close> case the
  environment variable is set before the client is constructed.
\<close>

definition NewAtomicConnector ::
  "bool \<Rightarrow> string \<Rightarrow> string \<Rightarrow> string \<Rightarrow> string \<Rightarrow> process
     \<Rightarrow> fatal + (datastoreAtomicConnector \<times> process)" where
  "NewAtomicConnector emulatorEnable datastoreEmulatorAddr gcloudCredentialsPath projectID
       collectionName p =
     (let clientType = getClientType emulatorEnable gcloudCredentialsPath;
          built =
            (if clientType = EMULATOR then
               (let p = Setenv p ''DATASTORE_EMULATOR_HOST'' datastoreEmulatorAddr
                in case NewClient p projectID None of
                     Inl err \<Rightarrow> Inl (Fatal (ErrArg err))
                   | Inr (c, p) \<Rightarrow> Inr (c, p))
             else if clientType = SIMPLE then
               (case NewClient p projectID None of
                  Inl err \<Rightarrow> Inl (Fatal (ErrArg err))
                | Inr (c, p) \<Rightarrow> Inr (c, p))
             else if clientType = KEYFILE then
               (case ReadFile_keyfile p gcloudCredentialsPath of
                  Inl err \<Rightarrow> Inl (Fatal (ErrArg err))
                | Inr jsonKey \<Rightarrow>
                    (case JWTConfigFromJSON p jsonKey of
                       Inl err \<Rightarrow> Inl (Fatal (ErrArg err))
                     | Inr conf \<Rightarrow>
                         (case NewClient p projectID (Some conf) of
                            Inl err \<Rightarrow> Inl (Fatal (ErrArg err))
                          | Inr (c, p) \<Rightarrow> Inr (c, p))))
             else Inl (Fatal (StrArg ''Unknown Datastore client'')))
      in case built of
           Inl f \<Rightarrow> Inl f
         | Inr (c, p) \<Rightarrow>
             Inr (\<lparr>client = c, CollectionName = collectionName\<rparr>, p))"

section \<open>Calls in sequence, and what a caller observes\<close>

text \<open>A process that has just started, where every call of the libraries succeeds.\<close>

definition boot :: process where
  "boot = \<lparr>environ = Map.empty, keyfiles = Map.empty, jwt_fault = (\<lambda>jsonKey. None),
     newClient_fault = None, clients = [], once_done = False, Instance = None\<rparr>"

text \<open>An empty store whose calls all succeed, and a connector onto the collection "visits".\<close>

definition fresh_store :: "BasicCounter datastore" where
  "fresh_store = \<lparr>entities = Map.empty, begin_fault = None, get_fault = None,
     put_fault = None, commit_fault = None, delete_fault = None\<rparr>"

definition visits :: datastoreAtomicConnector where
  "visits = \<lparr>client = 0, CollectionName = ''visits''\<rparr>"

text \<open>
  The value a call returned, if it returned; the state it left, if it returned; and the
  number of store clients the process has constructed by then.
\<close>

definition returned :: "'x + ('a \<times> 's) \<Rightarrow> 'a option" where
  "returned r = (case r of Inl x \<Rightarrow> None | Inr (v, s) \<Rightarrow> Some v)"

definition state_after :: "'x + ('a \<times> 's) \<Rightarrow> 's option" where
  "state_after r = (case r of Inl x \<Rightarrow> None | Inr (v, s) \<Rightarrow> Some s)"

definition clients_constructed :: "'x + ('a \<times> process) \<Rightarrow> nat option" where
  "clients_constructed r = (case r of Inl x \<Rightarrow> None | Inr (v, p) \<Rightarrow> Some (length (clients p)))"

text \<open>
  The AMOUNT of a counter as a transactional read finds it: the stored amount, and zero
  for a counter that has no record.
\<close>

definition current_amount :: "BasicCounter datastore \<Rightarrow> Key \<Rightarrow> go_int" where
  "current_amount s k = (case entities s k of None \<Rightarrow> 0 | Some c \<Rightarrow> Amount c)"

text \<open>
  \<^verbatim>\<open>Get\<close> lets the guarded branch run: it returned \<^verbatim>\<open>nil\<close> or
  \<^verbatim>\<open>ErrNoSuchEntity\<close>. (Without a fault it returns one of the two.)
\<close>

definition get_passes :: "'e datastore \<Rightarrow> bool" where
  "get_passes s = (get_fault s = None \<or> get_fault s = Some ErrNoSuchEntity)"

text \<open>Every call of the store succeeds.\<close>

definition no_faults :: "'e datastore \<Rightarrow> bool" where
  "no_faults s = (begin_fault s = None \<and> get_fault s = None \<and> put_fault s = None \<and>
     commit_fault s = None)"

text \<open>
  A sequence of calls on one counter of one connector, run one after the other on the
  store; the result lists the counter's AMOUNT after each call.
\<close>

datatype counter_call = Increment go_int | Decrement go_int

fun apply_call ::
  "datastoreAtomicConnector \<Rightarrow> string \<Rightarrow> counter_call \<Rightarrow> BasicCounter datastore
     \<Rightarrow> panic + (bool \<times> BasicCounter datastore)" where
  "apply_call d entityID (Increment n) s = IncrementCounter d entityID n s"
| "apply_call d entityID (Decrement n) s = DecrementCounter d entityID n s"

fun amounts_after ::
  "datastoreAtomicConnector \<Rightarrow> string \<Rightarrow> counter_call list \<Rightarrow> BasicCounter datastore
     \<Rightarrow> panic + int list" where
  "amounts_after d entityID [] s = Inr []"
| "amounts_after d entityID (c # cs) s =
     (case apply_call d entityID c s of
        Inl x \<Rightarrow> Inl x
      | Inr (ok, s') \<Rightarrow>
          (case amounts_after d entityID cs s' of
             Inl x \<Rightarrow> Inl x
           | Inr as \<Rightarrow>
               Inr (sint (current_amount s' (NameKey (CollectionName d) entityID)) # as)))"

text \<open>
  The final amount in the words of the specification: the larger of zero and the sum of
  the signed deltas.
\<close>

fun signed_delta :: "counter_call \<Rightarrow> int" where
  "signed_delta (Increment n) = sint n"
| "signed_delta (Decrement n) = - sint n"

definition max0_of_sum :: "counter_call list \<Rightarrow> int" where
  "max0_of_sum cs = max 0 (sum_list (map signed_delta cs))"

text \<open>
  The final amount with the clamp applied where the code applies it, at each decrement:
  the running amount after each call, from a starting amount.
\<close>

fun running_amount :: "int \<Rightarrow> counter_call list \<Rightarrow> int" where
  "running_amount a [] = a"
| "running_amount a (Increment n # cs) = running_amount (a + sint n) cs"
| "running_amount a (Decrement n # cs) = running_amount (max 0 (a - sint n)) cs"

text \<open>No delta is negative, and no increment takes the running amount past the largest \<^verbatim>\<open>int\<close>.\<close>

fun within_int :: "int \<Rightarrow> counter_call list \<Rightarrow> bool" where
  "within_int a [] = True"
| "within_int a (Increment n # cs) =
     (0 \<le> sint n \<and> a + sint n < 2 ^ 63 \<and> within_int (a + sint n) cs)"
| "within_int a (Decrement n # cs) = (0 \<le> sint n \<and> within_int (max 0 (a - sint n)) cs)"

text \<open>
  The amount \<^verbatim>\<open>DecrementCounter\<close> writes for a counter it read at \<open>cur\<close>: its two
  statements \<^verbatim>\<open>counter.Amount = counter.Amount - decrementAmount\<close> and
  \<^verbatim>\<open>if counter.Amount < 0 { counter.Amount = 0 }\<close>, in the arithmetic of \<^verbatim>\<open>int\<close>.
\<close>

definition decremented :: "go_int \<Rightarrow> go_int \<Rightarrow> go_int" where
  "decremented cur n = (if sint (cur - n) < 0 then 0 else cur - n)"

text \<open>Calls of a factory in sequence, each on the process the one before it left.\<close>

type_synonym New_args = "bool \<times> string \<times> string \<times> string"

fun New_calls ::
  "New_args list \<Rightarrow> process \<Rightarrow> fatal + (datastoreConnector option list \<times> process)" where
  "New_calls [] p = Inr ([], p)"
| "New_calls ((emulatorEnable, addr, credentialsPath, projectID) # rest) p =
     (case New emulatorEnable addr credentialsPath projectID p of
        Inl f \<Rightarrow> Inl f
      | Inr (r, p) \<Rightarrow>
          (case New_calls rest p of
             Inl f \<Rightarrow> Inl f
           | Inr (rs, p) \<Rightarrow> Inr (r # rs, p)))"

type_synonym NewAtomicConnector_args = "bool \<times> string \<times> string \<times> string \<times> string"

fun NewAtomicConnector_calls ::
  "NewAtomicConnector_args list \<Rightarrow> process
     \<Rightarrow> fatal + (datastoreAtomicConnector list \<times> process)" where
  "NewAtomicConnector_calls [] p = Inr ([], p)"
| "NewAtomicConnector_calls ((emulatorEnable, addr, credentialsPath, projectID, collection) # rest) p =
     (case NewAtomicConnector emulatorEnable addr credentialsPath projectID collection p of
        Inl f \<Rightarrow> Inl f
      | Inr (r, p) \<Rightarrow>
          (case NewAtomicConnector_calls rest p of
             Inl f \<Rightarrow> Inl f
           | Inr (rs, p) \<Rightarrow> Inr (r # rs, p)))"

section \<open>Properties of the counter service\<close>

subsection \<open>Arithmetic of \<^verbatim>\<open>int\<close>\<close>

lemma sint_bounds64: "- (2 ^ 63) \<le> sint (x :: 64 word)" "sint (x :: 64 word) < 2 ^ 63"
  using sint_ge [of x] sint_lt [of x] by simp_all

lemma sint_add64:
  "- (2 ^ 63) \<le> sint a + sint b \<Longrightarrow> sint a + sint b < 2 ^ 63 \<Longrightarrow>
   sint (a + b :: 64 word) = sint a + sint b"
  by (simp add: sint_word_ariths signed_take_bit_int_eq_self)

lemma sint_sub64:
  "- (2 ^ 63) \<le> sint a - sint b \<Longrightarrow> sint a - sint b < 2 ^ 63 \<Longrightarrow>
   sint (a - b :: 64 word) = sint a - sint b"
  by (simp add: sint_word_ariths signed_take_bit_int_eq_self)

subsection \<open>One call\<close>

lemma BasicCounter_update: "c\<lparr>Amount := v\<rparr> = \<lparr>Amount = v\<rparr>"
  by (cases c) simp

lemmas store_defs = Client_NewTransaction_def Transaction_Get_def Transaction_Put_def
  Transaction_Commit_def

lemma IncrementCounter_begun:
  assumes "begin_fault s = None"
  shows "IncrementCounter d entityID n s =
     Inr (get_passes s \<and> commit_fault s = None,
          if get_passes s \<and> put_fault s = None \<and> commit_fault s = None
          then s\<lparr>entities := (entities s)(NameKey (CollectionName d) entityID \<mapsto>
                 \<lparr>Amount = (if get_fault s = None
                             then current_amount s (NameKey (CollectionName d) entityID)
                             else 0) + n\<rparr>)\<rparr>
          else s)"
  using assms
  by (auto simp: IncrementCounter_def store_defs get_passes_def current_amount_def
      BasicCounter_update split: option.splits)

lemma DecrementCounter_begun:
  assumes "begin_fault s = None"
  shows "DecrementCounter d entityID n s =
     Inr (get_passes s \<and> commit_fault s = None,
          if get_passes s \<and> put_fault s = None \<and> commit_fault s = None
          then s\<lparr>entities := (entities s)(NameKey (CollectionName d) entityID \<mapsto>
                 \<lparr>Amount = decremented (if get_fault s = None
                             then current_amount s (NameKey (CollectionName d) entityID)
                             else 0) n\<rparr>)\<rparr>
          else s)"
  using assms
  by (auto simp: DecrementCounter_def store_defs get_passes_def current_amount_def decremented_def
      BasicCounter_update split: option.splits)

lemma begin_failed:
  assumes "begin_fault s = Some e"
  shows "IncrementCounter d entityID n s = Inl NilPointerDereference"
    and "DecrementCounter d entityID n s = Inl NilPointerDereference"
    and "Count d entityID s = Inl NilPointerDereference"
  using assms
  by (simp_all add: IncrementCounter_def DecrementCounter_def Count_def Client_NewTransaction_def)

lemma Count_begun:
  assumes "begin_fault s = None"
  shows "Count d entityID s =
     Inr (if get_fault s = None \<and> commit_fault s = None
          then current_amount s (NameKey (CollectionName d) entityID) else 0, s)"
  using assms
  by (auto simp: Count_def store_defs current_amount_def split: option.splits)

lemma sint_decremented:
  assumes "0 \<le> sint n" and "- (2 ^ 63) \<le> sint cur - sint n"
  shows "sint (decremented cur n) = max 0 (sint cur - sint n)"
proof -
  have "sint cur - sint n < 2 ^ 63"
    using assms(1) sint_bounds64(2) [of cur] by linarith
  with assms(2) have "sint (cur - n) = sint cur - sint n"
    by (rule sint_sub64)
  then show ?thesis
    by (simp add: decremented_def)
qed

lemma sint_decremented_nonneg: "0 \<le> sint (decremented cur n)"
  by (simp add: decremented_def)

subsection \<open>Calls in sequence\<close>

lemma no_faults_put: "no_faults s \<Longrightarrow> no_faults (s\<lparr>entities := m\<rparr>)"
  by (simp add: no_faults_def)

lemma IncrementCounter_no_faults:
  assumes "no_faults s"
  shows "IncrementCounter d entityID n s =
     Inr (True, s\<lparr>entities := (entities s)(NameKey (CollectionName d) entityID \<mapsto>
            \<lparr>Amount = current_amount s (NameKey (CollectionName d) entityID) + n\<rparr>)\<rparr>)"
  using assms by (simp add: IncrementCounter_begun no_faults_def get_passes_def)

lemma DecrementCounter_no_faults:
  assumes "no_faults s"
  shows "DecrementCounter d entityID n s =
     Inr (True, s\<lparr>entities := (entities s)(NameKey (CollectionName d) entityID \<mapsto>
            \<lparr>Amount = decremented (current_amount s (NameKey (CollectionName d) entityID)) n\<rparr>)\<rparr>)"
  using assms by (simp add: DecrementCounter_begun no_faults_def get_passes_def)

lemma current_amount_put:
  "current_amount (s\<lparr>entities := (entities s)(k \<mapsto> \<lparr>Amount = v\<rparr>)\<rparr>) k = v"
  by (simp add: current_amount_def)

text \<open>
  Claim C1, as amended. The claim reads: for every sequence of
  \<^verbatim>\<open>IncrementCounter\<close>/\<^verbatim>\<open>DecrementCounter\<close> calls, with deltas of any sign, the
  AMOUNT after each committed call is non-negative and the final AMOUNT is the larger of
  zero and the sum of the signed deltas. The code clamps at each decrement, not once at
  the end, and \<^verbatim>\<open>IncrementCounter\<close> does not clamp at all. What holds: on a store whose
  calls succeed, for a counter that is absent or holds a non-negative AMOUNT, and for
  deltas that are non-negative and never take the amount past the largest \<^verbatim>\<open>int\<close>,
  every call of the sequence returns, the AMOUNT after each call is non-negative, and the
  final AMOUNT is the running amount: each increment adds its delta, each decrement
  subtracts its delta and stops at zero.
\<close>

theorem counter_amounts_in_sequence:
  assumes "no_faults s"
    and "0 \<le> sint (current_amount s (NameKey (CollectionName d) entityID))"
    and "within_int (sint (current_amount s (NameKey (CollectionName d) entityID))) cs"
  shows "\<exists>as. amounts_after d entityID cs s = Inr as \<and> length as = length cs \<and>
           (\<forall>a \<in> set as. 0 \<le> a) \<and>
           last (sint (current_amount s (NameKey (CollectionName d) entityID)) # as) =
             running_amount (sint (current_amount s (NameKey (CollectionName d) entityID))) cs"
  using assms
proof (induction cs arbitrary: s)
  case Nil
  then show ?case by simp
next
  case (Cons c cs)
  let ?k = "NameKey (CollectionName d) entityID"
  let ?cur = "current_amount s ?k"
  show ?case
  proof (cases c)
    case (Increment n)
    let ?s' = "s\<lparr>entities := (entities s)(?k \<mapsto> \<lparr>Amount = ?cur + n\<rparr>)\<rparr>"
    from Cons.prems Increment have n: "0 \<le> sint n" and fit: "sint ?cur + sint n < 2 ^ 63"
      and rest: "within_int (sint ?cur + sint n) cs"
      by simp_all
    have sum: "sint (?cur + n) = sint ?cur + sint n"
      using Cons.prems(2) n fit by (intro sint_add64) linarith+
    have step: "apply_call d entityID c s = Inr (True, ?s')"
      using Cons.prems(1) Increment by (simp add: IncrementCounter_no_faults)
    have cur': "current_amount ?s' ?k = ?cur + n"
      by (simp add: current_amount_put)
    have "\<exists>as. amounts_after d entityID cs ?s' = Inr as \<and> length as = length cs \<and>
           (\<forall>a \<in> set as. 0 \<le> a) \<and>
           last (sint (current_amount ?s' ?k) # as) = running_amount (sint (current_amount ?s' ?k)) cs"
      using Cons.prems(1,2) n rest sum
      by (intro Cons.IH) (simp_all add: no_faults_put cur')
    then obtain as where as: "amounts_after d entityID cs ?s' = Inr as" "length as = length cs"
      "\<forall>a \<in> set as. 0 \<le> a"
      "last (sint (?cur + n) # as) = running_amount (sint (?cur + n)) cs"
      unfolding cur' by blast
    have "amounts_after d entityID (c # cs) s = Inr (sint (?cur + n) # as)"
      using step as(1) cur' by simp
    moreover have "0 \<le> sint (?cur + n)"
      using sum Cons.prems(2) n by simp
    ultimately show ?thesis
      using as(2,3,4) sum Increment by auto
  next
    case (Decrement n)
    let ?new = "decremented ?cur n"
    let ?s' = "s\<lparr>entities := (entities s)(?k \<mapsto> \<lparr>Amount = ?new\<rparr>)\<rparr>"
    from Cons.prems Decrement have n: "0 \<le> sint n"
      and rest: "within_int (max 0 (sint ?cur - sint n)) cs"
      by simp_all
    have new: "sint ?new = max 0 (sint ?cur - sint n)"
      using n Cons.prems(2) sint_bounds64(2) [of n] by (intro sint_decremented) linarith+
    have step: "apply_call d entityID c s = Inr (True, ?s')"
      using Cons.prems(1) Decrement by (simp add: DecrementCounter_no_faults)
    have cur': "current_amount ?s' ?k = ?new"
      by (simp add: current_amount_put)
    have "\<exists>as. amounts_after d entityID cs ?s' = Inr as \<and> length as = length cs \<and>
           (\<forall>a \<in> set as. 0 \<le> a) \<and>
           last (sint (current_amount ?s' ?k) # as) = running_amount (sint (current_amount ?s' ?k)) cs"
      using Cons.prems(1) rest new
      by (intro Cons.IH) (simp_all add: no_faults_put cur')
    then obtain as where as: "amounts_after d entityID cs ?s' = Inr as" "length as = length cs"
      "\<forall>a \<in> set as. 0 \<le> a"
      "last (sint ?new # as) = running_amount (sint ?new) cs"
      unfolding cur' by blast
    have "amounts_after d entityID (c # cs) s = Inr (sint ?new # as)"
      using step as(1) cur' by simp
    moreover have "0 \<le> sint ?new"
      using new by simp
    ultimately show ?thesis
      using as(2,3,4) new Decrement by auto
  qed
qed

lemmas counter_defs = IncrementCounter_def DecrementCounter_def Count_def store_defs
  current_amount_def fresh_store_def visits_def NameKey_def

text \<open>
  Three calls on a counter that has no record yet: \<^verbatim>\<open>IncrementCounter(id, 3)\<close>,
  \<^verbatim>\<open>DecrementCounter(id, 5)\<close> and \<^verbatim>\<open>IncrementCounter(id, 2)\<close> leave the amounts 3, 0
  and 2.
\<close>

theorem counter_amounts_in_sequence_witness:
  "no_faults fresh_store \<and>
   0 \<le> sint (current_amount fresh_store (NameKey (CollectionName visits) ''home'')) \<and>
   within_int (sint (current_amount fresh_store (NameKey (CollectionName visits) ''home'')))
     [Increment 3, Decrement 5, Increment 2] \<and>
   amounts_after visits ''home'' [Increment 3, Decrement 5, Increment 2] fresh_store = Inr [3, 0, 2] \<and>
   running_amount (sint (current_amount fresh_store (NameKey (CollectionName visits) ''home'')))
     [Increment 3, Decrement 5, Increment 2] = 2"
proof -
  have h1: "no_faults fresh_store"
    by (simp add: no_faults_def fresh_store_def)
  have h2: "0 \<le> sint (current_amount fresh_store (NameKey (CollectionName visits) ''home''))"
    by (simp add: current_amount_def fresh_store_def)
  have h3: "within_int (sint (current_amount fresh_store (NameKey (CollectionName visits) ''home'')))
     [Increment 3, Decrement 5, Increment 2]"
    by (simp add: current_amount_def fresh_store_def)
  from counter_amounts_in_sequence [OF h1 h2 h3] obtain as where
    "amounts_after visits ''home'' [Increment 3, Decrement 5, Increment 2] fresh_store = Inr as"
    and "last (sint (current_amount fresh_store (NameKey (CollectionName visits) ''home'')) # as) =
      running_amount (sint (current_amount fresh_store (NameKey (CollectionName visits) ''home'')))
        [Increment 3, Decrement 5, Increment 2]"
    by blast
  with h1 h2 h3 show ?thesis
    by (simp add: counter_defs)
qed

text \<open>
  Claim C1 as it is stated fails twice. \<^verbatim>\<open>IncrementCounter(id, -5)\<close> on a fresh counter
  commits the AMOUNT -5. And after \<^verbatim>\<open>IncrementCounter(id, 3)\<close>,
  \<^verbatim>\<open>DecrementCounter(id, 5)\<close>, \<^verbatim>\<open>IncrementCounter(id, 2)\<close> the AMOUNT is 2, where the
  larger of zero and the sum 3 - 5 + 2 is 0.
\<close>

theorem amounts_negative_and_not_max0_of_sum:
  "amounts_after visits ''home'' [Increment (- 5)] fresh_store = Inr [- 5] \<and>
   amounts_after visits ''home'' [Increment 3, Decrement 5, Increment 2] fresh_store = Inr [3, 0, 2] \<and>
   max0_of_sum [Increment 3, Decrement 5, Increment 2] = 0"
  by (simp add: counter_defs max0_of_sum_def)

subsection \<open>\<^verbatim>\<open>DecrementCounter\<close>\<close>

text \<open>
  Claim C2. On a store whose calls succeed, for every entity identifier and every
  non-negative delta, \<^verbatim>\<open>DecrementCounter\<close> returns \<^verbatim>\<open>true\<close> and writes the record whose
  AMOUNT is \<open>new\<close>, the larger of zero and the amount read (zero for a missing record)
  minus the delta, in the arithmetic of \<^verbatim>\<open>int\<close>. \<open>new\<close> is never negative. The
  difference of \<^verbatim>\<open>int\<close> is the difference of the two integers whenever that one is not
  below the smallest \<^verbatim>\<open>int\<close>, as it is for every amount read that is not negative. A
  delta larger than the amount is no failure.
\<close>

theorem DecrementCounter_clamps_at_zero:
  assumes "no_faults s" and "0 \<le> sint decrementAmount"
  shows "let k = NameKey (CollectionName d) entityID;
             cur = current_amount s k;
             new = (if sint (cur - decrementAmount) < 0 then 0 else cur - decrementAmount)
         in DecrementCounter d entityID decrementAmount s =
              Inr (True, s\<lparr>entities := (entities s)(k \<mapsto> \<lparr>Amount = new\<rparr>)\<rparr>) \<and>
            sint new = max 0 (sint (cur - decrementAmount)) \<and>
            0 \<le> sint new \<and>
            (- (2 ^ 63) \<le> sint cur - sint decrementAmount \<longrightarrow>
               sint new = max 0 (sint cur - sint decrementAmount))"
  using assms sint_decremented [of decrementAmount "current_amount s (NameKey (CollectionName d) entityID)"]
    sint_decremented_nonneg [of "current_amount s (NameKey (CollectionName d) entityID)" decrementAmount]
  by (simp add: Let_def DecrementCounter_no_faults decremented_def)

text \<open>
  The example of the claim: \<^verbatim>\<open>DecrementCounter(id, 100)\<close> on an AMOUNT of 3 leaves 0 and
  returns \<^verbatim>\<open>true\<close>.
\<close>

theorem DecrementCounter_clamps_at_zero_witness:
  "no_faults (fresh_store\<lparr>entities := [NameKey ''visits'' ''home'' \<mapsto> \<lparr>Amount = 3\<rparr>]\<rparr>) \<and>
   0 \<le> sint (100 :: go_int) \<and>
   DecrementCounter visits ''home'' 100
       (fresh_store\<lparr>entities := [NameKey ''visits'' ''home'' \<mapsto> \<lparr>Amount = 3\<rparr>]\<rparr>) =
     Inr (True, fresh_store\<lparr>entities := [NameKey ''visits'' ''home'' \<mapsto> \<lparr>Amount = 0\<rparr>]\<rparr>) \<and>
   max 0 (sint (3 :: go_int) - sint (100 :: go_int)) = 0"
proof -
  let ?s = "fresh_store\<lparr>entities := [NameKey ''visits'' ''home'' \<mapsto> \<lparr>Amount = 3\<rparr>]\<rparr>"
  have h1: "no_faults ?s"
    by (simp add: no_faults_def fresh_store_def)
  have h2: "0 \<le> sint (100 :: go_int)"
    by simp
  show ?thesis
    using h1 h2 DecrementCounter_clamps_at_zero [OF h1 h2, of visits "''home''"]
    by (simp add: Let_def current_amount_def visits_def fresh_store_def)
qed

text \<open>
  Claim C9. For every entity identifier without a record and every non-negative delta,
  on a store whose calls succeed, \<^verbatim>\<open>DecrementCounter\<close> reads the missing record as
  AMOUNT 0, writes a record with AMOUNT 0 and returns \<^verbatim>\<open>true\<close>: the decrement creates
  the counter.
\<close>

theorem DecrementCounter_creates_record:
  assumes "no_faults s" and "0 \<le> sint decrementAmount"
    and "entities s (NameKey (CollectionName d) entityID) = None"
  shows "DecrementCounter d entityID decrementAmount s =
     Inr (True, s\<lparr>entities := (entities s)(NameKey (CollectionName d) entityID \<mapsto> \<lparr>Amount = 0\<rparr>)\<rparr>)"
proof -
  have cur: "current_amount s (NameKey (CollectionName d) entityID) = 0"
    using assms(3) by (simp add: current_amount_def)
  have "sint (decremented 0 decrementAmount) = max 0 (sint (0 :: go_int) - sint decrementAmount)"
    using assms(2) sint_bounds64(2) [of decrementAmount] by (intro sint_decremented) simp_all
  then have "sint (decremented 0 decrementAmount) = sint (0 :: go_int)"
    using assms(2) by simp
  then have "decremented 0 decrementAmount = 0"
    by (metis signed_word_eqI)
  then show ?thesis
    using assms(1) cur by (simp add: DecrementCounter_no_faults)
qed

text \<open>
  A decrement by 4 on the empty store.
\<close>

theorem DecrementCounter_creates_record_witness:
  "no_faults fresh_store \<and> 0 \<le> sint (4 :: go_int) \<and>
   entities fresh_store (NameKey (CollectionName visits) ''home'') = None \<and>
   DecrementCounter visits ''home'' 4 fresh_store =
     Inr (True, fresh_store\<lparr>entities := [NameKey ''visits'' ''home'' \<mapsto> \<lparr>Amount = 0\<rparr>]\<rparr>)"
proof -
  have h1: "no_faults fresh_store"
    by (simp add: no_faults_def fresh_store_def)
  have h2: "0 \<le> sint (4 :: go_int)"
    by simp
  have h3: "entities fresh_store (NameKey (CollectionName visits) ''home'') = None"
    by (simp add: fresh_store_def)
  show ?thesis
    using h1 h2 h3 DecrementCounter_creates_record [OF h1 h2 h3]
    by (simp add: visits_def fresh_store_def)
qed

subsection \<open>Which errors reach the result\<close>

text \<open>
  The fault of \<^verbatim>\<open>Get\<close> and of \<^verbatim>\<open>Commit\<close> in terms of what the calls return.
\<close>

lemma get_passes_iff:
  "get_passes s \<longleftrightarrow>
     fst (Transaction_Get t s key dst) = None \<or>
     fst (Transaction_Get t s key dst) = Some ErrNoSuchEntity"
  by (auto simp: get_passes_def Transaction_Get_def split: option.splits)

lemma Commit_error: "snd (Transaction_Commit t s) = commit_fault s"
  by (simp add: Transaction_Commit_def split: option.splits)

text \<open>
  Claim C8. When \<^verbatim>\<open>IncrementCounter\<close> or \<^verbatim>\<open>DecrementCounter\<close> returns, the value is
  \<^verbatim>\<open>true\<close> exactly when \<^verbatim>\<open>Get\<close> returned \<^verbatim>\<open>nil\<close> or \<^verbatim>\<open>ErrNoSuchEntity\<close> and
  \<^verbatim>\<open>Commit\<close> returned \<^verbatim>\<open>nil\<close>. The error of \<^verbatim>\<open>NewTransaction\<close> is not read: a
  failed \<^verbatim>\<open>NewTransaction\<close> leaves a \<^verbatim>\<open>nil\<close> handle, and the call through it does not
  return at all. The error of \<^verbatim>\<open>Put\<close> is overwritten: whatever \<^verbatim>\<open>Put\<close> returns, the
  value returned is the same.
\<close>

theorem success_from_Get_and_Commit_only:
  "returned (IncrementCounter d entityID n s) =
     (if begin_fault s = None then Some (get_passes s \<and> commit_fault s = None) else None) \<and>
   returned (DecrementCounter d entityID n s) =
     (if begin_fault s = None then Some (get_passes s \<and> commit_fault s = None) else None) \<and>
   returned (IncrementCounter d entityID n (s\<lparr>put_fault := e\<rparr>)) =
     returned (IncrementCounter d entityID n s) \<and>
   returned (DecrementCounter d entityID n (s\<lparr>put_fault := e\<rparr>)) =
     returned (DecrementCounter d entityID n s)"
proof (cases "begin_fault s")
  case None
  then show ?thesis
    by (simp add: IncrementCounter_begun DecrementCounter_begun returned_def get_passes_def)
next
  case (Some e')
  then show ?thesis
    by (simp add: begin_failed [where e = e'] returned_def)
qed

text \<open>
  Claim C3 says that \<^verbatim>\<open>IncrementCounter\<close> returns \<^verbatim>\<open>true\<close> only if opening the
  transaction, the read, the write and the commit all succeed, and \<^verbatim>\<open>false\<close> after an
  error in any of them. The code at two inputs: when \<^verbatim>\<open>Put\<close> fails and \<^verbatim>\<open>Commit\<close>
  succeeds it returns \<^verbatim>\<open>true\<close>, and nothing was written; when \<^verbatim>\<open>NewTransaction\<close> fails
  it calls \<^verbatim>\<open>Get\<close> through the \<^verbatim>\<open>nil\<close> handle and does not return.
\<close>

theorem IncrementCounter_success_despite_failed_step:
  "IncrementCounter visits ''home'' 1 (fresh_store\<lparr>put_fault := Some (ErrOther ''put failed'')\<rparr>) =
     Inr (True, fresh_store\<lparr>put_fault := Some (ErrOther ''put failed'')\<rparr>) \<and>
   IncrementCounter visits ''home'' 1 (fresh_store\<lparr>begin_fault := Some (ErrOther ''unavailable'')\<rparr>) =
     Inl NilPointerDereference"
  by (simp add: counter_defs)

subsection \<open>\<^verbatim>\<open>Count\<close>\<close>

text \<open>
  What \<^verbatim>\<open>Count\<close> does once the transaction is open: it returns an amount and no
  error, the stored AMOUNT when the read and the commit succeed, and zero when the record
  is absent, when the read fails and when the commit fails. The store is left as it was.
\<close>

lemma Count_amount_or_zero:
  assumes "begin_fault s = None"
  shows "Count d entityID s =
           Inr (if get_fault s = None \<and> commit_fault s = None
                then current_amount s (NameKey (CollectionName d) entityID) else 0, s) \<and>
         (entities s (NameKey (CollectionName d) entityID) = None \<longrightarrow>
            Count d entityID s = Inr (0, s))"
  using assms by (simp add: Count_begun current_amount_def)

text \<open>
  A counter that holds 7 and one that was never incremented, on a store whose calls
  succeed; then the counter that holds 7 when the read fails, and when the commit fails.
\<close>

lemma Count_amount_or_zero_examples:
  "begin_fault (fresh_store\<lparr>entities := [NameKey ''visits'' ''home'' \<mapsto> \<lparr>Amount = 7\<rparr>]\<rparr>) = None \<and>
   returned (Count visits ''home''
       (fresh_store\<lparr>entities := [NameKey ''visits'' ''home'' \<mapsto> \<lparr>Amount = 7\<rparr>]\<rparr>)) = Some 7 \<and>
   returned (Count visits ''away''
       (fresh_store\<lparr>entities := [NameKey ''visits'' ''home'' \<mapsto> \<lparr>Amount = 7\<rparr>]\<rparr>)) = Some 0 \<and>
   returned (Count visits ''home''
       (fresh_store\<lparr>entities := [NameKey ''visits'' ''home'' \<mapsto> \<lparr>Amount = 7\<rparr>],
          get_fault := Some (ErrOther ''deadline exceeded'')\<rparr>)) = Some 0 \<and>
   returned (Count visits ''home''
       (fresh_store\<lparr>entities := [NameKey ''visits'' ''home'' \<mapsto> \<lparr>Amount = 7\<rparr>],
          commit_fault := Some (ErrOther ''too much contention'')\<rparr>)) = Some 0"
proof -
  let ?s = "fresh_store\<lparr>entities := [NameKey ''visits'' ''home'' \<mapsto> \<lparr>Amount = 7\<rparr>]\<rparr>"
  let ?g = "?s\<lparr>get_fault := Some (ErrOther ''deadline exceeded'')\<rparr>"
  let ?c = "?s\<lparr>commit_fault := Some (ErrOther ''too much contention'')\<rparr>"
  have h: "begin_fault ?s = None"
    by (simp add: fresh_store_def)
  have hg: "begin_fault ?g = None"
    by (simp add: fresh_store_def)
  have hc: "begin_fault ?c = None"
    by (simp add: fresh_store_def)
  show ?thesis
    using h Count_amount_or_zero [OF h, of visits "''home''"]
      Count_amount_or_zero [OF h, of visits "''away''"]
      Count_amount_or_zero [OF hg, of visits "''home''"]
      Count_amount_or_zero [OF hc, of visits "''home''"]
    by (simp add: returned_def current_amount_def visits_def fresh_store_def NameKey_def)
qed

text \<open>
  Claim C4 says that \<^verbatim>\<open>Count\<close> returns the stored AMOUNT when the read and the commit
  succeed, returns zero for an absent record and after any failure, and never surfaces an
  error to the caller. The code where \<^verbatim>\<open>NewTransaction\<close> fails: its error is
  overwritten unread, \<^verbatim>\<open>t.Get\<close> is called through the \<^verbatim>\<open>nil\<close> handle, and
  \<^verbatim>\<open>Count\<close> panics, for a counter that was never incremented as for one that holds 7.
  It returns neither zero nor any other amount.
\<close>

theorem Count_panics_after_failed_NewTransaction:
  "Count visits ''away''
       (fresh_store\<lparr>begin_fault := Some (ErrOther ''unavailable'')\<rparr>) =
     Inl NilPointerDereference \<and>
   Count visits ''home''
       (fresh_store\<lparr>entities := [NameKey ''visits'' ''home'' \<mapsto> \<lparr>Amount = 7\<rparr>],
          begin_fault := Some (ErrOther ''unavailable'')\<rparr>) =
     Inl NilPointerDereference \<and>
   returned (Count visits ''away''
       (fresh_store\<lparr>begin_fault := Some (ErrOther ''unavailable'')\<rparr>)) \<noteq> Some 0"
  by (simp add: counter_defs returned_def)

section \<open>Properties of the basic entity service\<close>

text \<open>
  Claim C5. In both revisions \<^verbatim>\<open>Delete\<close> returns \<^verbatim>\<open>true\<close> exactly when the store's
  delete call returns an error, and \<^verbatim>\<open>false\<close> exactly when that call succeeds.
\<close>

theorem Delete_true_iff_error:
  "fst (Delete d key s) = (snd (Client_Delete s key) \<noteq> None) \<and>
   fst (Delete_entityID d' entityID s) =
     (snd (Client_Delete s (NameKey (CollectionName d') entityID)) \<noteq> None)"
  by (simp add: Delete_def Delete_entityID_def Client_Delete_def split: option.splits)

section \<open>Properties of the client factory\<close>

lemmas factory_defs = getClientType_def SIMPLE_def EMULATOR_def KEYFILE_def NewClient_def
  ReadFile_keyfile_def JWTConfigFromJSON_def Setenv_def

lemma getClientType_cases:
  "getClientType emulatorEnable gcloudCredentialsPath =
     (if emulatorEnable then 2 else if gcloudCredentialsPath = [] then 1 else 3)"
  by (simp add: getClientType_def SIMPLE_def EMULATOR_def KEYFILE_def)

lemma NewClient_Inl: "NewClient p projectID ts = Inl e \<longleftrightarrow> newClient_fault p = Some e"
  by (simp add: NewClient_def split: option.splits)

lemma NewClient_Inr:
  "NewClient p projectID ts = Inr (c, p') \<longleftrightarrow>
     newClient_fault p = None \<and> c = length (clients p) \<and>
     p' = p\<lparr>clients := clients p @
            [\<lparr>project = projectID, emulator_host = environ p ''DATASTORE_EMULATOR_HOST'',
              token_source = ts\<rparr>]\<rparr>"
  by (auto simp: NewClient_def split: option.splits)

text \<open>
  Claim C6. The connection mode is \<^verbatim>\<open>EMULATOR\<close> whenever the emulator is enabled,
  whatever the credentials path; without the emulator it is \<^verbatim>\<open>KEYFILE\<close> for a
  non-empty credentials path and \<^verbatim>\<open>SIMPLE\<close> for the empty one. The three modes are
  different values, so exactly one is selected.
\<close>

theorem getClientType_selection:
  "getClientType True gcloudCredentialsPath = EMULATOR \<and>
   (gcloudCredentialsPath \<noteq> [] \<longrightarrow> getClientType False gcloudCredentialsPath = KEYFILE) \<and>
   getClientType False [] = SIMPLE \<and>
   distinct [SIMPLE, EMULATOR, KEYFILE]"
  by (simp add: getClientType_def SIMPLE_def EMULATOR_def KEYFILE_def)

text \<open>
  The three rows of the rule at a credentials path and at the empty path.
\<close>

theorem getClientType_selection_witness:
  "getClientType True ''/run/secrets'' = EMULATOR \<and>
   ''/run/secrets'' \<noteq> [] \<and> getClientType False ''/run/secrets'' = KEYFILE \<and>
   getClientType False [] = SIMPLE"
  using getClientType_selection [of "''/run/secrets''"] by simp

text \<open>
  Claim C10. \<^verbatim>\<open>getClientType\<close> returns one of the three constants, and neither factory
  ever ends in \<^verbatim>\<open>log.Fatal("Unknown Datastore client")\<close>, the \<^verbatim>\<open>default\<close> case of its
  \<^verbatim>\<open>switch\<close>.
\<close>

theorem default_case_unreachable:
  "getClientType emulatorEnable gcloudCredentialsPath \<in> {SIMPLE, EMULATOR, KEYFILE} \<and>
   New emulatorEnable addr gcloudCredentialsPath projectID p \<noteq>
     Inl (Fatal (StrArg ''Unknown Datastore client'')) \<and>
   NewAtomicConnector emulatorEnable addr gcloudCredentialsPath projectID collection p \<noteq>
     Inl (Fatal (StrArg ''Unknown Datastore client''))"
  by (simp add: New_def NewAtomicConnector_def Let_def getClientType_cases SIMPLE_def EMULATOR_def
      KEYFILE_def split: sum.splits)

subsection \<open>How often a client is constructed\<close>

lemma New_after_once:
  "once_done p \<Longrightarrow> New_calls rest p = Inr (replicate (length rest) (Instance p), p)"
proof (induction rest)
  case Nil
  then show ?case by simp
next
  case (Cons a rest)
  obtain e addr c pr where a: "a = (e, addr, c, pr)"
    by (cases a)
  from Cons show ?case
    by (simp add: a New_def)
qed

lemma New_first:
  assumes "\<not> once_done p"
    and "New emulatorEnable addr gcloudCredentialsPath projectID p = Inr (r, p1)"
  shows "once_done p1 \<and> Instance p1 = r \<and> r = Some \<lparr>client = length (clients p)\<rparr> \<and>
    length (clients p1) = Suc (length (clients p))"
proof -
  consider "emulatorEnable" | "\<not> emulatorEnable" "gcloudCredentialsPath = []"
    | "\<not> emulatorEnable" "gcloudCredentialsPath \<noteq> []"
    by blast
  then show ?thesis
  proof cases
    case 1
    with assms show ?thesis
      by (auto simp: New_def Let_def getClientType_cases SIMPLE_def EMULATOR_def KEYFILE_def
          NewClient_Inr Setenv_def split: sum.splits)
  next
    case 2
    with assms show ?thesis
      by (auto simp: New_def Let_def getClientType_cases SIMPLE_def EMULATOR_def KEYFILE_def
          NewClient_Inr split: sum.splits)
  next
    case 3
    with assms show ?thesis
      by (auto simp: New_def Let_def getClientType_cases SIMPLE_def EMULATOR_def KEYFILE_def
          NewClient_Inr split: sum.splits)
  qed
qed

text \<open>
  Claim C7, as amended. The claim reads: over every sequence of calls to \<^verbatim>\<open>New\<close> and
  \<^verbatim>\<open>NewAtomicConnector\<close> the store handle is constructed at most once. This holds for
  \<^verbatim>\<open>New\<close> of \<^verbatim>\<open>datasoreConnector.go\<close>, which runs its construction under
  \<^verbatim>\<open>once.Do\<close>: when the first call returns it has constructed exactly one client, and
  every later call, whatever its arguments, returns the same connector and leaves the
  process as the first call left it. (A first call that does not return has ended the
  process.)
\<close>

theorem New_constructs_once:
  assumes "\<not> once_done p"
    and "New emulatorEnable addr gcloudCredentialsPath projectID p = Inr (r, p1)"
  shows "New_calls ((emulatorEnable, addr, gcloudCredentialsPath, projectID) # rest) p =
           Inr (replicate (Suc (length rest)) r, p1) \<and>
         r = Some \<lparr>client = length (clients p)\<rparr> \<and>
         length (clients p1) = Suc (length (clients p))"
  using New_first [OF assms] New_after_once [of p1 rest] assms(2)
  by simp

text \<open>
  Three calls with different arguments in a process that has just started.
\<close>

theorem New_constructs_once_witness:
  "\<not> once_done boot \<and>
   returned (New False [] [] ''shop'' boot) = Some (Some \<lparr>client = 0\<rparr>) \<and>
   returned (New_calls [(False, [], [], ''shop''), (True, ''localhost:8081'', [], ''shop''),
       (False, [], ''/run/secrets'', ''other'')] boot) =
     Some [Some \<lparr>client = 0\<rparr>, Some \<lparr>client = 0\<rparr>, Some \<lparr>client = 0\<rparr>] \<and>
   clients_constructed (New_calls [(False, [], [], ''shop''), (True, ''localhost:8081'', [], ''shop''),
       (False, [], ''/run/secrets'', ''other'')] boot) = Some 1"
proof -
  let ?p1 = "boot\<lparr>clients := [\<lparr>project = ''shop'', emulator_host = None, token_source = None\<rparr>],
    Instance := Some \<lparr>client = 0\<rparr>, once_done := True\<rparr>"
  have h1: "\<not> once_done boot"
    by (simp add: boot_def)
  have h2: "New False [] [] ''shop'' boot = Inr (Some \<lparr>client = 0\<rparr>, ?p1)"
    by (simp add: New_def Let_def factory_defs boot_def)
  have "New_calls ((False, [], [], ''shop'') #
        [(True, ''localhost:8081'', [], ''shop''), (False, [], ''/run/secrets'', ''other'')]) boot =
      Inr (replicate (Suc (length [(True, ''localhost:8081'', [], ''shop''),
        (False, [], ''/run/secrets'', ''other'')])) (Some \<lparr>client = 0\<rparr>), ?p1)"
    using New_constructs_once [OF h1 h2] by blast
  then have calls: "New_calls [(False, [], [], ''shop''), (True, ''localhost:8081'', [], ''shop''),
       (False, [], ''/run/secrets'', ''other'')] boot =
      Inr ([Some \<lparr>client = 0\<rparr>, Some \<lparr>client = 0\<rparr>, Some \<lparr>client = 0\<rparr>], ?p1)"
    by (simp only: replicate.simps length_Cons list.size One_nat_def numeral_2_eq_2 numeral_3_eq_3)
  show ?thesis
    unfolding calls h2 using h1 by (simp add: returned_def clients_constructed_def boot_def)
qed

text \<open>
  \<^verbatim>\<open>NewAtomicConnector\<close> in general: every call that returns has constructed one more
  client and hands out a connector around that new client.
\<close>

lemma NewAtomicConnector_constructs_a_client:
  assumes "NewAtomicConnector emulatorEnable addr gcloudCredentialsPath projectID collection p =
             Inr (d, p')"
  shows "client d = length (clients p) \<and> CollectionName d = collection \<and>
         length (clients p') = Suc (length (clients p))"
proof -
  consider "emulatorEnable" | "\<not> emulatorEnable" "gcloudCredentialsPath = []"
    | "\<not> emulatorEnable" "gcloudCredentialsPath \<noteq> []"
    by blast
  then show ?thesis
  proof cases
    case 1
    with assms show ?thesis
      by (auto simp: NewAtomicConnector_def Let_def getClientType_cases SIMPLE_def EMULATOR_def
          KEYFILE_def NewClient_Inr Setenv_def split: sum.splits)
  next
    case 2
    with assms show ?thesis
      by (auto simp: NewAtomicConnector_def Let_def getClientType_cases SIMPLE_def EMULATOR_def
          KEYFILE_def NewClient_Inr split: sum.splits)
  next
    case 3
    with assms show ?thesis
      by (auto simp: NewAtomicConnector_def Let_def getClientType_cases SIMPLE_def EMULATOR_def
          KEYFILE_def NewClient_Inr split: sum.splits)
  qed
qed

text \<open>
  Claim C7 as it is stated fails for \<^verbatim>\<open>NewAtomicConnector\<close>, which has no \<^verbatim>\<open>once\<close>:
  two calls construct two clients and return two connectors, each with a client of its
  own.
\<close>

theorem NewAtomicConnector_constructs_every_time:
  "returned (NewAtomicConnector_calls
       [(False, [], [], ''shop'', ''visits''), (False, [], [], ''shop'', ''visits'')] boot) =
     Some [\<lparr>client = 0, CollectionName = ''visits''\<rparr>, \<lparr>client = 1, CollectionName = ''visits''\<rparr>] \<and>
   clients_constructed (NewAtomicConnector_calls
       [(False, [], [], ''shop'', ''visits''), (False, [], [], ''shop'', ''visits'')] boot) = Some 2"
  by (simp add: NewAtomicConnector_def Let_def factory_defs boot_def returned_def clients_constructed_def)

end
